theory Spec2Isabelle
  imports Complex_Main "HOL-Library.Signed_Division"
begin

section \<open>JSON documents as Go's encoding/json reads them\<close>

text \<open>
  \<^verbatim>\<open>Collect\<close> hands two response bodies to \<^verbatim>\<open>json.Unmarshal\<close>. The decoder is
  Go's standard library, not code of the repository; it is modelled here from its
  documented behaviour, in two stages: the byte-level scanner that accepts or rejects
  the whole input (\<^verbatim>\<open>checkValid\<close>), extended so that it also builds the document it
  has read, and the rules by which a document is stored into a struct.

  Strings and numbers keep their raw bytes: an object key and a string value are
  unquoted only when they are used, and \<^verbatim>\<open>time.Time\<close> receives the raw bytes.
\<close>

datatype json =
    JNull
  | JBool bool
  | JNumber string
  | JString string
  | JArray "json list"
  | JObject "(string \<times> json) list"

datatype scan_step =
    stateBeginValueOrEmpty | stateBeginValue | stateBeginStringOrEmpty | stateBeginString
  | stateEndValue | stateEndTop
  | stateInString | stateInStringEsc
  | stateInStringEscU | stateInStringEscU1 | stateInStringEscU12 | stateInStringEscU123
  | stateNeg | state1 | state0 | stateDot | stateDot0 | stateE | stateESign | stateE0
  | stateT | stateTr | stateTru
  | stateF | stateFa | stateFal | stateFals
  | stateN | stateNu | stateNul
  | stateError

text \<open>
  The scanner's stack of open containers. Each entry is one of Go's three parse states;
  here it also carries what has been read of that container so far.
\<close>

datatype frame =
    parseObjectKey "(string \<times> json) list"
  | parseObjectValue "(string \<times> json) list" "string option"
  | parseArrayValue "json list"

record scanner =
  step :: scan_step
  parseState :: "frame list"
  endTop :: bool
  literal :: string
  completed :: "json option"

definition maxNestingDepth :: nat where
  "maxNestingDepth = 10000"

definition isSpace :: "char \<Rightarrow> bool" where
  "isSpace c = (c = CHR '' '' \<or> c = CHR 0x09 \<or> c = CHR 0x0D \<or> c = CHR 0x0A)"

definition isDigit :: "char \<Rightarrow> bool" where
  "isDigit c = (c \<in> set ''0123456789'')"

definition isHex :: "char \<Rightarrow> bool" where
  "isHex c = (c \<in> set ''0123456789abcdefABCDEF'')"

definition scan_reset :: scanner where
  "scan_reset = \<lparr>step = stateBeginValue, parseState = [], endTop = False,
                  literal = [], completed = None\<rparr>"

definition scan_error :: "scanner \<Rightarrow> scanner" where
  "scan_error s = s\<lparr>step := stateError\<rparr>"

definition more :: "scanner \<Rightarrow> scan_step \<Rightarrow> char \<Rightarrow> scanner" where
  "more s next c = s\<lparr>step := next, literal := literal s @ [c]\<rparr>"

definition pushParseState :: "scanner \<Rightarrow> frame \<Rightarrow> scan_step \<Rightarrow> scanner" where
  "pushParseState s f successStep =
     (let ps = f # parseState s in
      if length ps \<le> maxNestingDepth then s\<lparr>step := successStep, parseState := ps\<rparr>
      else scan_error (s\<lparr>parseState := ps\<rparr>))"

definition popParseState :: "scanner \<Rightarrow> scanner" where
  "popParseState s =
     (let ps = tl (parseState s) in
      if ps = [] then s\<lparr>step := stateEndTop, parseState := ps, endTop := True\<rparr>
      else s\<lparr>step := stateEndValue, parseState := ps\<rparr>)"

definition do_stateEndTop :: "scanner \<Rightarrow> char \<Rightarrow> scanner" where
  "do_stateEndTop s c = (if isSpace c then s else scan_error s)"

definition do_stateEndValue :: "scanner \<Rightarrow> char \<Rightarrow> scanner" where
  "do_stateEndValue s c =
     (case parseState s of
        [] \<Rightarrow> do_stateEndTop (s\<lparr>step := stateEndTop, endTop := True\<rparr>) c
      | f # fs \<Rightarrow>
          if isSpace c then s\<lparr>step := stateEndValue\<rparr>
          else (case f of
            parseObjectKey kvs \<Rightarrow>
              (case completed s of
                 Some (JString k) \<Rightarrow>
                   if c = CHR '':''
                   then s\<lparr>step := stateBeginValue,
                          parseState := parseObjectValue kvs (Some k) # fs,
                          completed := None\<rparr>
                   else scan_error s
               | _ \<Rightarrow> scan_error s)
          | parseObjectValue kvs k \<Rightarrow>
              (let kvs' = (case (k, completed s) of
                             (Some key, Some v) \<Rightarrow> kvs @ [(key, v)]
                           | _ \<Rightarrow> kvs) in
               if c = CHR '',''
               then s\<lparr>step := stateBeginString, parseState := parseObjectKey kvs' # fs,
                      completed := None\<rparr>
               else if c = CHR ''}''
               then popParseState (s\<lparr>completed := Some (JObject kvs')\<rparr>)
               else scan_error s)
          | parseArrayValue vs \<Rightarrow>
              (let vs' = (case completed s of Some v \<Rightarrow> vs @ [v] | None \<Rightarrow> vs) in
               if c = CHR '',''
               then s\<lparr>step := stateBeginValue, parseState := parseArrayValue vs' # fs,
                      completed := None\<rparr>
               else if c = CHR '']''
               then popParseState (s\<lparr>completed := Some (JArray vs')\<rparr>)
               else scan_error s)))"

definition do_stateBeginValue :: "scanner \<Rightarrow> char \<Rightarrow> scanner" where
  "do_stateBeginValue s c =
     (if isSpace c then s
      else if c = CHR ''{'' then pushParseState s (parseObjectKey []) stateBeginStringOrEmpty
      else if c = CHR ''['' then pushParseState s (parseArrayValue []) stateBeginValueOrEmpty
      else if c = CHR 0x22 then s\<lparr>step := stateInString, literal := []\<rparr>
      else if c = CHR ''-'' then s\<lparr>step := stateNeg, literal := [c]\<rparr>
      else if c = CHR ''0'' then s\<lparr>step := state0, literal := [c]\<rparr>
      else if c = CHR ''t'' then s\<lparr>step := stateT, literal := [c]\<rparr>
      else if c = CHR ''f'' then s\<lparr>step := stateF, literal := [c]\<rparr>
      else if c = CHR ''n'' then s\<lparr>step := stateN, literal := [c]\<rparr>
      else if c \<in> set ''123456789'' then s\<lparr>step := state1, literal := [c]\<rparr>
      else scan_error s)"

definition do_stateBeginValueOrEmpty :: "scanner \<Rightarrow> char \<Rightarrow> scanner" where
  "do_stateBeginValueOrEmpty s c =
     (if isSpace c then s
      else if c = CHR '']'' then do_stateEndValue s c
      else do_stateBeginValue s c)"

definition do_stateBeginString :: "scanner \<Rightarrow> char \<Rightarrow> scanner" where
  "do_stateBeginString s c =
     (if isSpace c then s
      else if c = CHR 0x22 then s\<lparr>step := stateInString, literal := []\<rparr>
      else scan_error s)"

definition do_stateBeginStringOrEmpty :: "scanner \<Rightarrow> char \<Rightarrow> scanner" where
  "do_stateBeginStringOrEmpty s c =
     (if isSpace c then s
      else if c = CHR ''}''
      then (case parseState s of
              parseObjectKey kvs # fs \<Rightarrow>
                do_stateEndValue (s\<lparr>parseState := parseObjectValue kvs None # fs\<rparr>) c
            | _ \<Rightarrow> scan_error s)
      else do_stateBeginString s c)"

definition do_stateInString :: "scanner \<Rightarrow> char \<Rightarrow> scanner" where
  "do_stateInString s c =
     (if c = CHR 0x22 then s\<lparr>step := stateEndValue, completed := Some (JString (literal s))\<rparr>
      else if c = CHR 0x5C then more s stateInStringEsc c
      else if (of_char c :: nat) < 0x20 then scan_error s
      else more s stateInString c)"

definition do_stateInStringEsc :: "scanner \<Rightarrow> char \<Rightarrow> scanner" where
  "do_stateInStringEsc s c =
     (if c \<in> set [CHR ''b'', CHR ''f'', CHR ''n'', CHR ''r'', CHR ''t'', CHR 0x5C, CHR ''/'', CHR 0x22]
      then more s stateInString c
      else if c = CHR ''u'' then more s stateInStringEscU c
      else scan_error s)"

definition do_hex :: "scan_step \<Rightarrow> scanner \<Rightarrow> char \<Rightarrow> scanner" where
  "do_hex next s c = (if isHex c then more s next c else scan_error s)"

definition do_stateEndNumber :: "scanner \<Rightarrow> char \<Rightarrow> scanner" where
  "do_stateEndNumber s c = do_stateEndValue (s\<lparr>completed := Some (JNumber (literal s))\<rparr>) c"

definition do_stateNeg :: "scanner \<Rightarrow> char \<Rightarrow> scanner" where
  "do_stateNeg s c =
     (if c = CHR ''0'' then more s state0 c
      else if c \<in> set ''123456789'' then more s state1 c
      else scan_error s)"

definition do_state0 :: "scanner \<Rightarrow> char \<Rightarrow> scanner" where
  "do_state0 s c =
     (if c = CHR ''.'' then more s stateDot c
      else if c = CHR ''e'' \<or> c = CHR ''E'' then more s stateE c
      else do_stateEndNumber s c)"

definition do_state1 :: "scanner \<Rightarrow> char \<Rightarrow> scanner" where
  "do_state1 s c = (if isDigit c then more s state1 c else do_state0 s c)"

definition do_stateDot :: "scanner \<Rightarrow> char \<Rightarrow> scanner" where
  "do_stateDot s c = (if isDigit c then more s stateDot0 c else scan_error s)"

definition do_stateDot0 :: "scanner \<Rightarrow> char \<Rightarrow> scanner" where
  "do_stateDot0 s c =
     (if isDigit c then more s stateDot0 c
      else if c = CHR ''e'' \<or> c = CHR ''E'' then more s stateE c
      else do_stateEndNumber s c)"

definition do_stateESign :: "scanner \<Rightarrow> char \<Rightarrow> scanner" where
  "do_stateESign s c = (if isDigit c then more s stateE0 c else scan_error s)"

definition do_stateE :: "scanner \<Rightarrow> char \<Rightarrow> scanner" where
  "do_stateE s c =
     (if c = CHR ''+'' \<or> c = CHR ''-'' then more s stateESign c else do_stateESign s c)"

definition do_stateE0 :: "scanner \<Rightarrow> char \<Rightarrow> scanner" where
  "do_stateE0 s c = (if isDigit c then more s stateE0 c else do_stateEndNumber s c)"

definition do_letter :: "char \<Rightarrow> scan_step \<Rightarrow> scanner \<Rightarrow> char \<Rightarrow> scanner" where
  "do_letter expected next s c = (if c = expected then more s next c else scan_error s)"

definition do_last_letter :: "char \<Rightarrow> json \<Rightarrow> scanner \<Rightarrow> char \<Rightarrow> scanner" where
  "do_last_letter expected v s c =
     (if c = expected then s\<lparr>step := stateEndValue, completed := Some v\<rparr> else scan_error s)"

definition scan_byte :: "scanner \<Rightarrow> char \<Rightarrow> scanner" where
  "scan_byte s c =
     (case step s of
        stateBeginValueOrEmpty \<Rightarrow> do_stateBeginValueOrEmpty s c
      | stateBeginValue \<Rightarrow> do_stateBeginValue s c
      | stateBeginStringOrEmpty \<Rightarrow> do_stateBeginStringOrEmpty s c
      | stateBeginString \<Rightarrow> do_stateBeginString s c
      | stateEndValue \<Rightarrow> do_stateEndValue s c
      | stateEndTop \<Rightarrow> do_stateEndTop s c
      | stateInString \<Rightarrow> do_stateInString s c
      | stateInStringEsc \<Rightarrow> do_stateInStringEsc s c
      | stateInStringEscU \<Rightarrow> do_hex stateInStringEscU1 s c
      | stateInStringEscU1 \<Rightarrow> do_hex stateInStringEscU12 s c
      | stateInStringEscU12 \<Rightarrow> do_hex stateInStringEscU123 s c
      | stateInStringEscU123 \<Rightarrow> do_hex stateInString s c
      | stateNeg \<Rightarrow> do_stateNeg s c
      | state1 \<Rightarrow> do_state1 s c
      | state0 \<Rightarrow> do_state0 s c
      | stateDot \<Rightarrow> do_stateDot s c
      | stateDot0 \<Rightarrow> do_stateDot0 s c
      | stateE \<Rightarrow> do_stateE s c
      | stateESign \<Rightarrow> do_stateESign s c
      | stateE0 \<Rightarrow> do_stateE0 s c
      | stateT \<Rightarrow> do_letter (CHR ''r'') stateTr s c
      | stateTr \<Rightarrow> do_letter (CHR ''u'') stateTru s c
      | stateTru \<Rightarrow> do_last_letter (CHR ''e'') (JBool True) s c
      | stateF \<Rightarrow> do_letter (CHR ''a'') stateFa s c
      | stateFa \<Rightarrow> do_letter (CHR ''l'') stateFal s c
      | stateFal \<Rightarrow> do_letter (CHR ''s'') stateFals s c
      | stateFals \<Rightarrow> do_last_letter (CHR ''e'') (JBool False) s c
      | stateN \<Rightarrow> do_letter (CHR ''u'') stateNu s c
      | stateNu \<Rightarrow> do_letter (CHR ''l'') stateNul s c
      | stateNul \<Rightarrow> do_last_letter (CHR ''l'') JNull s c
      | stateError \<Rightarrow> s)"

text \<open>
  \<^verbatim>\<open>checkValid\<close>: every byte is fed to the scanner; at the end of the input a value
  that is still open (a number at top level) is closed by one blank. \<open>None\<close> is Go's
  \<^verbatim>\<open>SyntaxError\<close>.
\<close>

definition scan_eof :: "scanner \<Rightarrow> json option" where
  "scan_eof s =
     (if step s = stateError then None
      else if endTop s then completed s
      else (let s' = scan_byte s (CHR '' '') in
            if step s' \<noteq> stateError \<and> endTop s' then completed s' else None))"

definition checkValid :: "string \<Rightarrow> json option" where
  "checkValid data = scan_eof (foldl scan_byte scan_reset data)"

subsection \<open>Unquoting a string literal\<close>

text \<open>
  \<^verbatim>\<open>unquoteBytes\<close>, on the bytes between the quotes. Escapes are replaced; a
  \<^verbatim>\<open>\u\<close> escape is written in UTF-8, a surrogate pair as one character, a lone
  surrogate as U+FFFD; bytes that are not well-formed UTF-8 become U+FFFD one byte at a
  time. Go's function also reports failure, on bytes the scanner has already rejected
  (the decoder treats that as an internal inconsistency); the model stops there, so it
  is total.
\<close>

definition hexval :: "char \<Rightarrow> nat" where
  "hexval c =
     (if isDigit c then of_char c - 48
      else if c \<in> set ''abcdef'' then of_char c - 87
      else of_char c - 55)"

definition getu4 :: "string \<Rightarrow> nat option" where
  "getu4 s =
     (case s of
        b # u # h1 # h2 # h3 # h4 # _ \<Rightarrow>
          if b = CHR 0x5C \<and> u = CHR ''u'' \<and> isHex h1 \<and> isHex h2 \<and> isHex h3 \<and> isHex h4
          then Some (((hexval h1 * 16 + hexval h2) * 16 + hexval h3) * 16 + hexval h4)
          else None
      | _ \<Rightarrow> None)"

definition RuneError :: string where
  "RuneError = [CHR 0xEF, CHR 0xBF, CHR 0xBD]"

definition isSurrogate :: "nat \<Rightarrow> bool" where
  "isSurrogate r = (0xD800 \<le> r \<and> r < 0xE000)"

definition EncodeRune :: "nat \<Rightarrow> string" where
  "EncodeRune r =
     (if r < 0x80 then [char_of r]
      else if r < 0x800 then [char_of (0xC0 + r div 64), char_of (0x80 + r mod 64)]
      else if isSurrogate r \<or> 0x10FFFF < r then RuneError
      else if r < 0x10000
      then [char_of (0xE0 + r div 4096), char_of (0x80 + r div 64 mod 64),
            char_of (0x80 + r mod 64)]
      else [char_of (0xF0 + r div 262144), char_of (0x80 + r div 4096 mod 64),
            char_of (0x80 + r div 64 mod 64), char_of (0x80 + r mod 64)])"

text \<open>
  \<^verbatim>\<open>utf16.DecodeRune\<close>: a high surrogate followed by a low one is one character;
  anything else is not a pair.
\<close>

definition utf16_DecodeRune :: "nat \<Rightarrow> nat \<Rightarrow> nat option" where
  "utf16_DecodeRune r1 r2 =
     (if 0xD800 \<le> r1 \<and> r1 < 0xDC00 \<and> 0xDC00 \<le> r2 \<and> r2 < 0xE000
      then Some ((r1 - 0xD800) * 1024 + (r2 - 0xDC00) + 0x10000)
      else None)"

text \<open>
  \<^verbatim>\<open>utf8.DecodeRune\<close>, as far as unquoting needs it: the length of the well-formed
  UTF-8 sequence the bytes begin with, or 0 when they begin with none.
\<close>

definition between :: "nat \<Rightarrow> nat \<Rightarrow> char \<Rightarrow> bool" where
  "between lo hi c = (lo \<le> of_char c \<and> (of_char c :: nat) \<le> hi)"

definition rune_size :: "string \<Rightarrow> nat" where
  "rune_size s =
     (case s of
        [] \<Rightarrow> 0
      | c0 # r \<Rightarrow>
          if between 0 0x7F c0 then 1
          else if between 0xC2 0xDF c0
          then (case r of c1 # _ \<Rightarrow> if between 0x80 0xBF c1 then 2 else 0 | _ \<Rightarrow> 0)
          else if between 0xE0 0xEF c0
          then (case r of
                  c1 # c2 # _ \<Rightarrow>
                    if between (if c0 = CHR 0xE0 then 0xA0 else 0x80)
                               (if c0 = CHR 0xED then 0x9F else 0xBF) c1
                       \<and> between 0x80 0xBF c2
                    then 3 else 0
                | _ \<Rightarrow> 0)
          else if between 0xF0 0xF4 c0
          then (case r of
                  c1 # c2 # c3 # _ \<Rightarrow>
                    if between (if c0 = CHR 0xF0 then 0x90 else 0x80)
                               (if c0 = CHR 0xF4 then 0x8F else 0xBF) c1
                       \<and> between 0x80 0xBF c2 \<and> between 0x80 0xBF c3
                    then 4 else 0
                | _ \<Rightarrow> 0)
          else 0)"

definition unescape :: "char \<Rightarrow> char" where
  "unescape e =
     (if e = CHR ''b'' then CHR 0x08
      else if e = CHR ''f'' then CHR 0x0C
      else if e = CHR ''n'' then CHR 0x0A
      else if e = CHR ''r'' then CHR 0x0D
      else if e = CHR ''t'' then CHR 0x09
      else e)"

fun unquote :: "string \<Rightarrow> string" where
  "unquote [] = []"
| "unquote (c # rest) =
     (if c = CHR 0x5C then
        (case rest of
           [] \<Rightarrow> []
         | e # rest' \<Rightarrow>
             if e = CHR ''u'' then
               (case getu4 (c # rest) of
                  None \<Rightarrow> []
                | Some rr \<Rightarrow>
                    if isSurrogate rr then
                      (case getu4 (drop 5 rest) of
                         None \<Rightarrow> RuneError @ unquote (drop 5 rest)
                       | Some rr1 \<Rightarrow>
                           (case utf16_DecodeRune rr rr1 of
                              None \<Rightarrow> RuneError @ unquote (drop 5 rest)
                            | Some dec \<Rightarrow> EncodeRune dec @ unquote (drop 11 rest)))
                    else EncodeRune rr @ unquote (drop 5 rest))
             else if e \<in> set [CHR 0x22, CHR 0x5C, CHR ''/'', CHR 0x27,
                               CHR ''b'', CHR ''f'', CHR ''n'', CHR ''r'', CHR ''t'']
             then unescape e # unquote rest'
             else [])
      else if c = CHR 0x22 \<or> (of_char c :: nat) < 0x20 then []
      else if (of_char c :: nat) < 0x80 then c # unquote rest
      else (let n = rune_size (c # rest) in
            if n = 0 then RuneError @ unquote rest
            else take n (c # rest) @ unquote (drop (n - 1) rest)))"

section \<open>Time\<close>

text \<open>
  A \<^verbatim>\<open>time.Time\<close> is an instant, here in nanoseconds since the Unix epoch. Its zero
  value is January 1 of year 1, 00:00:00 UTC. A \<^verbatim>\<open>time.Duration\<close> is an
  \<^verbatim>\<open>int64\<close> count of nanoseconds: \<^verbatim>\<open>Time.Sub\<close> returns the largest or
  smallest duration when the difference does not fit, and \<^verbatim>\<open>time.Until t\<close> is
  \<^verbatim>\<open>t.Sub(time.Now())\<close>.

  \<^verbatim>\<open>Duration.Seconds\<close> returns a \<^verbatim>\<open>float64\<close>; the model computes the same
  expression over the reals, so the rounding of the floating-point quotient and sum is
  left out.
\<close>

type_synonym Time = int

type_synonym Duration = int

definition zero_Time :: Time where
  "zero_Time = - 62135596800 * 1000000000"

definition minDuration :: Duration where
  "minDuration = - (2 ^ 63)"

definition maxDuration :: Duration where
  "maxDuration = 2 ^ 63 - 1"

definition Second :: Duration where
  "Second = 1000000000"

definition Time_Sub :: "Time \<Rightarrow> Time \<Rightarrow> Duration" where
  "Time_Sub t u =
     (let d = t - u in
      if d < minDuration then minDuration
      else if maxDuration < d then maxDuration
      else d)"

definition Seconds :: "Duration \<Rightarrow> real" where
  "Seconds d = real_of_int (d sdiv Second) + real_of_int (d smod Second) / 1000000000"

section \<open>Decoding the two notices\<close>

text \<open>
  \<^verbatim>\<open>instanceAction\<close> and \<^verbatim>\<open>instanceEvent\<close>, lines 24-31 of the collector's file.
\<close>

record instanceAction =
  Action :: string
  Time :: Time

record instanceEvent =
  NoticeTime :: Time

datatype json_error =
    SyntaxError
  | UnmarshalTypeError string
  | UnmarshalerError string

text \<open>
  An object key selects the field whose name it equals, ignoring case. The three field
  names are ASCII letters other than k and s, for which Go's folding is the ASCII one.
\<close>

definition foldByte :: "char \<Rightarrow> char" where
  "foldByte c =
     (if c \<in> set ''ABCDEFGHIJKLMNOPQRSTUVWXYZ'' then char_of (of_char c + (32 :: nat)) else c)"

definition equalFold :: "string \<Rightarrow> string \<Rightarrow> bool" where
  "equalFold name key = (map foldByte name = map foldByte key)"

definition saveError :: "json_error option \<Rightarrow> json_error \<Rightarrow> json_error option" where
  "saveError saved e = (case saved of None \<Rightarrow> Some e | Some first \<Rightarrow> Some first)"

text \<open>
  Storing a document into a field of type \<^verbatim>\<open>string\<close>: a string is unquoted and
  stored, \<^verbatim>\<open>null\<close> leaves the field alone, anything else is skipped and the first
  such mismatch is remembered as the error \<^verbatim>\<open>Unmarshal\<close> finally returns.
\<close>

fun store_string :: "json \<Rightarrow> string \<times> json_error option \<Rightarrow> string \<times> json_error option" where
  "store_string (JString raw) (x, saved) = (unquote raw, saved)"
| "store_string JNull (x, saved) = (x, saved)"
| "store_string (JBool b) (x, saved) = (x, saveError saved (UnmarshalTypeError ''bool''))"
| "store_string (JNumber n) (x, saved) = (x, saveError saved (UnmarshalTypeError ''number''))"
| "store_string (JArray vs) (x, saved) = (x, saveError saved (UnmarshalTypeError ''array''))"
| "store_string (JObject kvs) (x, saved) = (x, saveError saved (UnmarshalTypeError ''object''))"

text \<open>
  \<^verbatim>\<open>Time.UnmarshalJSON\<close>: \<^verbatim>\<open>null\<close> leaves the time alone; a string literal is
  parsed, without unquoting, as an RFC 3339 time; anything else is not a JSON string.
  Its error ends the decoding at once. The parser of the time's text is the first
  argument: it is Go's, and which texts it accepts has changed between releases.
\<close>

fun Time_UnmarshalJSON :: "(string \<Rightarrow> string + Time) \<Rightarrow> json \<Rightarrow> Time \<Rightarrow> json_error + Time" where
  "Time_UnmarshalJSON parse JNull t = Inr t"
| "Time_UnmarshalJSON parse (JString raw) t =
     (case parse raw of Inl e \<Rightarrow> Inl (UnmarshalerError e) | Inr t' \<Rightarrow> Inr t')"
| "Time_UnmarshalJSON parse j t =
     Inl (UnmarshalerError ''Time.UnmarshalJSON: input is not a JSON string'')"

text \<open>
  The members of an object, in order: a later member overwrites an earlier one, and a
  key that selects no field is skipped together with its value.
\<close>

fun object_instanceAction ::
  "(string \<Rightarrow> string + Time) \<Rightarrow> (string \<times> json) list \<Rightarrow> instanceAction \<times> json_error option
     \<Rightarrow> json_error + instanceAction \<times> json_error option" where
  "object_instanceAction parse [] st = Inr st"
| "object_instanceAction parse ((k, v) # kvs) (ia, saved) =
     (if equalFold ''action'' (unquote k)
      then (case store_string v (Action ia, saved) of
              (a, saved') \<Rightarrow> object_instanceAction parse kvs (ia\<lparr>Action := a\<rparr>, saved'))
      else if equalFold ''time'' (unquote k)
      then (case Time_UnmarshalJSON parse v (Time ia) of
              Inl e \<Rightarrow> Inl e
            | Inr t \<Rightarrow> object_instanceAction parse kvs (ia\<lparr>Time := t\<rparr>, saved))
      else object_instanceAction parse kvs (ia, saved))"

fun object_instanceEvent ::
  "(string \<Rightarrow> string + Time) \<Rightarrow> (string \<times> json) list \<Rightarrow> instanceEvent \<times> json_error option
     \<Rightarrow> json_error + instanceEvent \<times> json_error option" where
  "object_instanceEvent parse [] st = Inr st"
| "object_instanceEvent parse ((k, v) # kvs) (ie, saved) =
     (if equalFold ''noticeTime'' (unquote k)
      then (case Time_UnmarshalJSON parse v (NoticeTime ie) of
              Inl e \<Rightarrow> Inl e
            | Inr t \<Rightarrow> object_instanceEvent parse kvs (ie\<lparr>NoticeTime := t\<rparr>, saved))
      else object_instanceEvent parse kvs (ie, saved))"

text \<open>
  \<^verbatim>\<open>json.Unmarshal(body, &ia)\<close> with \<^verbatim>\<open>ia\<close> a struct: the input is checked as a
  whole first; an object is stored member by member; \<^verbatim>\<open>null\<close> has no effect and is
  no error; an array, string, number or boolean cannot be stored in a struct.
\<close>

definition finish :: "json_error + 'a \<times> json_error option \<Rightarrow> json_error + 'a" where
  "finish r =
     (case r of
        Inl e \<Rightarrow> Inl e
      | Inr (x, Some e) \<Rightarrow> Inl e
      | Inr (x, None) \<Rightarrow> Inr x)"

fun into_struct ::
  "((string \<times> json) list \<Rightarrow> 'a \<times> json_error option \<Rightarrow> json_error + 'a \<times> json_error option)
     \<Rightarrow> 'a \<Rightarrow> json \<Rightarrow> json_error + 'a" where
  "into_struct members x (JObject kvs) = finish (members kvs (x, None))"
| "into_struct members x JNull = Inr x"
| "into_struct members x (JArray vs) = Inl (UnmarshalTypeError ''array'')"
| "into_struct members x (JString raw) = Inl (UnmarshalTypeError ''string'')"
| "into_struct members x (JNumber n) = Inl (UnmarshalTypeError ''number'')"
| "into_struct members x (JBool b) = Inl (UnmarshalTypeError ''bool'')"

definition Unmarshal_instanceAction ::
  "(string \<Rightarrow> string + Time) \<Rightarrow> string \<Rightarrow> json_error + instanceAction" where
  "Unmarshal_instanceAction parse body =
     (case checkValid body of
        None \<Rightarrow> Inl SyntaxError
      | Some j \<Rightarrow>
          into_struct (object_instanceAction parse) \<lparr>Action = [], Time = zero_Time\<rparr> j)"

definition Unmarshal_instanceEvent ::
  "(string \<Rightarrow> string + Time) \<Rightarrow> string \<Rightarrow> json_error + instanceEvent" where
  "Unmarshal_instanceEvent parse body =
     (case checkValid body of
        None \<Rightarrow> Inl SyntaxError
      | Some j \<Rightarrow> into_struct (object_instanceEvent parse) \<lparr>NoticeTime = zero_Time\<rparr> j)"

section \<open>The world outside the collector\<close>

text \<open>
  A request as \<^verbatim>\<open>http.NewRequest\<close> builds it and \<^verbatim>\<open>Header.Add\<close> extends it, and
  a response as the collector reads it: the status code, the bytes \<^verbatim>\<open>io.ReadAll\<close>
  returns for the body, and the error \<^verbatim>\<open>io.ReadAll\<close> returns with them, if any.
  Header names are written as the source writes them.
\<close>

record Request =
  Method :: string
  URL :: string
  Header :: "(string \<times> string) list"

record Response =
  StatusCode :: int
  Body :: string
  ReadErr :: "string option"

text \<open>
  Everything a scrape consults and cannot decide itself:
  \<^item> \<open>parseURL\<close>: the error with which \<^verbatim>\<open>http.NewRequest\<close> rejects a URL, if it does;
  \<^item> \<open>Do\<close>: the answer of \<^verbatim>\<open>client.Do\<close> to a request, an error (the transport failed,
    or the one second the client allows has passed) or a response of any status;
  \<^item> \<open>Now\<close>: the clock, in nanoseconds since the Unix epoch, which the operating
    system's clock does not precede;
  \<^item> \<open>parseTime\<close>: Go's parser of the text of a time.

  The answer is a function of the request. Within one scrape no request is sent twice
  (the token request is the only \<^verbatim>\<open>PUT\<close>, and the four lookups differ in their
  URLs), so any sequence of answers is the behaviour of some such function.
\<close>

record world =
  parseURL :: "string \<Rightarrow> string option"
  Do :: "Request \<Rightarrow> string + Response"
  Now :: nat
  parseTime :: "string \<Rightarrow> string + Time"

definition time_Until :: "world \<Rightarrow> Time \<Rightarrow> Duration" where
  "time_Until w t = Time_Sub t (int (Now w))"

definition http_NewRequest :: "world \<Rightarrow> string \<Rightarrow> string \<Rightarrow> string + Request" where
  "http_NewRequest w method url =
     (case parseURL w url of
        Some err \<Rightarrow> Inl err
      | None \<Rightarrow> Inr \<lparr>Method = method, URL = url, Header = []\<rparr>)"

definition Header_Add :: "Request \<Rightarrow> string \<Rightarrow> string \<Rightarrow> Request" where
  "Header_Add req k v = req\<lparr>Header := Header req @ [(k, v)]\<rparr>"

section \<open>Descriptors and metrics\<close>

text \<open>
  The Prometheus client library, as far as the collector uses it. A descriptor is what
  \<^verbatim>\<open>NewDesc\<close> was given. \<^verbatim>\<open>MustNewConstMetric\<close> panics where
  \<^verbatim>\<open>NewConstMetric\<close> returns an error, which it does when the number of label values
  is not the number of the descriptor's variable labels; otherwise the metric is the
  descriptor, the value and the label values. The descriptors are taken to be valid (the
  registry refuses a collector with an invalid one). What the library does beyond its
  documented contract is not modelled: it also inspects the text of a label value (its
  encoding), and label values are taken to pass.
\<close>

record Desc =
  fqName :: string
  helpText :: string
  variableLabels :: "string list"
  constLabels :: "string \<rightharpoonup> string"

datatype ValueType = CounterValue | GaugeValue | UntypedValue

record Metric =
  desc :: Desc
  valueType :: ValueType
  reading :: real
  labelValues :: "string list"

definition NewDesc :: "string \<Rightarrow> string \<Rightarrow> string list \<Rightarrow> (string \<rightharpoonup> string) \<Rightarrow> Desc" where
  "NewDesc name hlp labels cl =
     \<lparr>fqName = name, helpText = hlp, variableLabels = labels, constLabels = cl\<rparr>"

definition MustNewConstMetric :: "Desc \<Rightarrow> ValueType \<Rightarrow> real \<Rightarrow> string list \<Rightarrow> string + Metric" where
  "MustNewConstMetric d vt v lvs =
     (if length lvs \<noteq> length (variableLabels d) then Inl ''inconsistent label cardinality''
      else Inr \<lparr>desc = d, valueType = vt, reading = v, labelValues = lvs\<rparr>)"

section \<open>The collector\<close>

record terminationCollector =
  metadataEndpoint :: string
  tokenEndpoint :: string
  useIMDSv2 :: bool
  rebalanceIndicator :: Desc
  rebalanceScrapeSuccessful :: Desc
  scrapeSuccessful :: Desc
  terminationIndicator :: Desc
  terminationTime :: Desc

definition NewTerminationCollector ::
  "string \<Rightarrow> string \<Rightarrow> bool \<Rightarrow> (string \<rightharpoonup> string) \<Rightarrow> terminationCollector" where
  "NewTerminationCollector me te v2 nodeLabels =
     \<lparr>metadataEndpoint = me,
      tokenEndpoint = te,
      useIMDSv2 = v2,
      rebalanceIndicator =
        NewDesc ''aws_instance_rebalance_recommended'' ''Instance rebalance is recommended''
          [''instance_id'', ''instance_type''] nodeLabels,
      rebalanceScrapeSuccessful =
        NewDesc ''aws_instance_metadata_service_events_available''
          ''Metadata service events endpoint available'' [''instance_id''] nodeLabels,
      scrapeSuccessful =
        NewDesc ''aws_instance_metadata_service_available'' ''Metadata service available''
          [''instance_id''] nodeLabels,
      terminationIndicator =
        NewDesc ''aws_instance_termination_imminent'' ''Instance is about to be terminated''
          [''instance_action'', ''instance_id'', ''instance_type''] nodeLabels,
      terminationTime =
        NewDesc ''aws_instance_termination_in'' ''Instance will be terminated in''
          [''instance_id'', ''instance_type''] nodeLabels\<rparr>"

text \<open>
  What one call of \<^verbatim>\<open>Collect\<close> does that can be seen from outside: the metrics it
  sends on the channel, and the requests it hands to \<^verbatim>\<open>client.Do\<close>, both oldest
  first. Log lines are left out: no branch depends on them.
\<close>

record scrape =
  Sent :: "Metric list"
  Wire :: "Request list"

definition client_Do :: "world \<Rightarrow> Request \<Rightarrow> scrape \<Rightarrow> (string + Response) \<times> scrape" where
  "client_Do w req s = (Do w req, s\<lparr>Wire := Wire s @ [req]\<rparr>)"

text \<open>\<^verbatim>\<open>getIMDSv2Token\<close>, lines 172-187. The status of the answer is not looked at.\<close>

definition getIMDSv2Token :: "world \<Rightarrow> string \<Rightarrow> scrape \<Rightarrow> (string + string) \<times> scrape" where
  "getIMDSv2Token w url s =
     (case http_NewRequest w ''PUT'' url of
        Inl err \<Rightarrow> (Inl err, s)
      | Inr req \<Rightarrow>
          (case client_Do w (Header_Add req ''X-aws-ec2-metadata-token-ttl-seconds'' ''21600'') s of
             (Inl err, s') \<Rightarrow> (Inl err, s')
           | (Inr resp, s') \<Rightarrow>
               (case ReadErr resp of
                  Some err \<Rightarrow> (Inl err, s')
                | None \<Rightarrow> (Inr (Body resp), s'))))"

text \<open>\<^verbatim>\<open>getResponse\<close>, lines 189-198.\<close>

definition getResponse :: "world \<Rightarrow> string \<Rightarrow> string \<Rightarrow> scrape \<Rightarrow> (string + Response) \<times> scrape" where
  "getResponse w url token s =
     (case http_NewRequest w ''GET'' url of
        Inl err \<Rightarrow> (Inl err, s)
      | Inr req \<Rightarrow>
          client_Do w (if token \<noteq> [] then Header_Add req ''X-aws-ec2-metadata-token'' token
                       else req) s)"

text \<open>
  \<^verbatim>\<open>ch <- prometheus.MustNewConstMetric(...)\<close>: the metric is appended to what was
  sent, unless building it panics; \<open>Inl\<close> is the panic.
\<close>

definition send :: "string + Metric \<Rightarrow> scrape \<Rightarrow> string + scrape" where
  "send m s = (case m of Inl p \<Rightarrow> Inl p | Inr x \<Rightarrow> Inr (s\<lparr>Sent := Sent s @ [x]\<rparr>))"

text \<open>Lines 106-138 of \<^verbatim>\<open>Collect\<close>: the spot/instance-action lookup.\<close>

definition Collect_termination ::
  "terminationCollector \<Rightarrow> world \<Rightarrow> string \<Rightarrow> string \<Rightarrow> string \<Rightarrow> scrape \<Rightarrow> string + scrape" where
  "Collect_termination c w token instanceID instanceType s =
     (case getResponse w (metadataEndpoint c @ ''spot/instance-action'') token s of
        (Inl err, s1) \<Rightarrow>
          send (MustNewConstMetric (scrapeSuccessful c) GaugeValue 0 [instanceID]) s1
      | (Inr resp, s1) \<Rightarrow>
          (case send (MustNewConstMetric (scrapeSuccessful c) GaugeValue 1 [instanceID]) s1 of
             Inl p \<Rightarrow> Inl p
           | Inr s2 \<Rightarrow>
               if StatusCode resp = 404
               then send (MustNewConstMetric (terminationIndicator c) GaugeValue 0
                            [[], instanceID, instanceType]) s2
               else
                 (case Unmarshal_instanceAction (parseTime w) (Body resp) of
                    Inl err \<Rightarrow>
                      send (MustNewConstMetric (terminationIndicator c) GaugeValue 0
                              [[], instanceID, instanceType]) s2
                  | Inr ia \<Rightarrow>
                      (case send (MustNewConstMetric (terminationIndicator c) GaugeValue 1
                                    [Action ia, instanceID, instanceType]) s2 of
                         Inl p \<Rightarrow> Inl p
                       | Inr s3 \<Rightarrow>
                           (let delta = time_Until w (Time ia) in
                            if Seconds delta > 0
                            then send (MustNewConstMetric (terminationTime c) GaugeValue
                                         (Seconds delta) [instanceID, instanceType]) s3
                            else Inr s3)))))"

text \<open>Lines 140-169 of \<^verbatim>\<open>Collect\<close>: the rebalance recommendation lookup.\<close>

definition Collect_rebalance ::
  "terminationCollector \<Rightarrow> world \<Rightarrow> string \<Rightarrow> string \<Rightarrow> string \<Rightarrow> scrape \<Rightarrow> string + scrape" where
  "Collect_rebalance c w token instanceID instanceType s =
     (case getResponse w (metadataEndpoint c @ ''events/recommendations/rebalance'') token s of
        (Inl err, s1) \<Rightarrow>
          send (MustNewConstMetric (rebalanceScrapeSuccessful c) GaugeValue 0 [instanceID]) s1
      | (Inr eventResp, s1) \<Rightarrow>
          (case send (MustNewConstMetric (rebalanceScrapeSuccessful c) GaugeValue 1
                        [instanceID]) s1 of
             Inl p \<Rightarrow> Inl p
           | Inr s2 \<Rightarrow>
               if StatusCode eventResp = 404
               then send (MustNewConstMetric (rebalanceIndicator c) GaugeValue 0
                            [instanceID, instanceType]) s2
               else
                 (case Unmarshal_instanceEvent (parseTime w) (Body eventResp) of
                    Inl err \<Rightarrow>
                      send (MustNewConstMetric (rebalanceIndicator c) GaugeValue 0
                              [instanceID, instanceType]) s2
                  | Inr ie \<Rightarrow>
                      send (MustNewConstMetric (rebalanceIndicator c) GaugeValue 1
                              [instanceID, instanceType]) s2)))"

text \<open>
  \<^verbatim>\<open>Collect\<close>, lines 60-170. The token starts empty on every call and is fetched
  only with \<^verbatim>\<open>useIMDSv2\<close> (lines 68-76, \<open>Collect_token\<close>); the two identity
  lookups return without sending anything on an error or a 404, and take the body of any
  other answer as the value. \<^verbatim>\<open>Collect\<close> assigns to no field of the collector, so
  the collector is an argument and not part of the result.
\<close>

definition Collect_token :: "terminationCollector \<Rightarrow> world \<Rightarrow> (string + string) \<times> scrape" where
  "Collect_token c w =
     (if useIMDSv2 c then getIMDSv2Token w (tokenEndpoint c) \<lparr>Sent = [], Wire = []\<rparr>
      else (Inr [], \<lparr>Sent = [], Wire = []\<rparr>))"

definition Collect :: "terminationCollector \<Rightarrow> world \<Rightarrow> string + scrape" where
  "Collect c w =
     (case Collect_token c w of
        (Inl err, s0) \<Rightarrow> Inr s0
      | (Inr token, s0) \<Rightarrow>
          (case getResponse w (metadataEndpoint c @ ''instance-id'') token s0 of
             (Inl err, s1) \<Rightarrow> Inr s1
           | (Inr idResp, s1) \<Rightarrow>
               if StatusCode idResp = 404 then Inr s1
               else
                 (let instanceID = Body idResp in
                  case getResponse w (metadataEndpoint c @ ''instance-type'') token s1 of
                    (Inl err, s2) \<Rightarrow> Inr s2
                  | (Inr typeResp, s2) \<Rightarrow>
                      if StatusCode typeResp = 404 then Inr s2
                      else
                        (let instanceType = Body typeResp in
                         case Collect_termination c w token instanceID instanceType s2 of
                           Inl p \<Rightarrow> Inl p
                         | Inr s3 \<Rightarrow> Collect_rebalance c w token instanceID instanceType s3))))"

section \<open>Vocabulary for the statements\<close>

text \<open>
  The answer \<^verbatim>\<open>getResponse\<close> gives for a URL and a token, and the requests it puts
  on the wire for it (one, or none when the URL is rejected), read off the function
  itself; a gauge reading; and the two ways in which an identity lookup ends the scrape.
\<close>

definition fetched :: "world \<Rightarrow> string \<Rightarrow> string \<Rightarrow> string + Response" where
  "fetched w url token = fst (getResponse w url token \<lparr>Sent = [], Wire = []\<rparr>)"

definition wire_of :: "world \<Rightarrow> string \<Rightarrow> string \<Rightarrow> Request list" where
  "wire_of w url token = Wire (snd (getResponse w url token \<lparr>Sent = [], Wire = []\<rparr>))"

definition gauge :: "Desc \<Rightarrow> real \<Rightarrow> string list \<Rightarrow> Metric" where
  "gauge d v lvs = \<lparr>desc = d, valueType = GaugeValue, reading = v, labelValues = lvs\<rparr>"

definition error_or_404 :: "string + Response \<Rightarrow> bool" where
  "error_or_404 r = (case r of Inl err \<Rightarrow> True | Inr resp \<Rightarrow> StatusCode resp = 404)"






text \<open>The request \<^verbatim>\<open>getIMDSv2Token\<close> sends.\<close>

definition token_request :: "string \<Rightarrow> Request" where
  "token_request url =
     \<lparr>Method = ''PUT'', URL = url,
      Header = [(''X-aws-ec2-metadata-token-ttl-seconds'', ''21600'')]\<rparr>"


section \<open>A mocked metadata service for the examples\<close>

text \<open>
  The examples run \<^verbatim>\<open>Collect\<close> against a table from URLs to answers; a URL that is
  not in the table is not reachable. Every URL is accepted by \<^verbatim>\<open>http.NewRequest\<close>.
  The clock reads 2026-11-01T00:00:00Z.
\<close>

definition answer :: "int \<Rightarrow> string \<Rightarrow> string + Response" where
  "answer status body = Inr \<lparr>StatusCode = status, Body = body, ReadErr = None\<rparr>"

definition backend :: "(string \<times> (string + Response)) list \<Rightarrow> Request \<Rightarrow> string + Response" where
  "backend table req =
     (case map_of table (URL req) of
        None \<Rightarrow> Inl ''dial tcp: connection refused''
      | Some r \<Rightarrow> r)"

text \<open>
  The examples' parser of times reads the one shape \<^verbatim>\<open>YYYY-MM-DDTHH:MM:SSZ\<close>,
  which is RFC 3339 in UTC without a fraction, and refuses every other text. The days
  since the epoch are counted in the proleptic Gregorian calendar.
\<close>

definition digit :: "char \<Rightarrow> int" where
  "digit c = int (of_char c) - 48"

definition daysIn :: "int \<Rightarrow> int \<Rightarrow> int" where
  "daysIn m y =
     (if m = 2 then (if y mod 4 = 0 \<and> (y mod 100 \<noteq> 0 \<or> y mod 400 = 0) then 29 else 28)
      else if m \<in> {4, 6, 9, 11} then 30
      else 31)"

definition days_from_civil :: "int \<Rightarrow> int \<Rightarrow> int \<Rightarrow> int" where
  "days_from_civil y m d =
     (let y' = (if m \<le> 2 then y - 1 else y);
          era = y' div 400;
          yoe = y' - era * 400;
          doy = (153 * (if m > 2 then m - 3 else m + 9) + 2) div 5 + d - 1;
          doe = yoe * 365 + yoe div 4 - yoe div 100 + doy
      in era * 146097 + doe - 719468)"

definition example_parseTime :: "string \<Rightarrow> string + Time" where
  "example_parseTime text =
     (if length text = 20
         \<and> list_all isDigit (map ((!) text) [0, 1, 2, 3, 5, 6, 8, 9, 11, 12, 14, 15, 17, 18])
         \<and> map ((!) text) [4, 7, 10, 13, 16, 19] = ''--T::Z''
      then
        (let y = digit (text ! 0) * 1000 + digit (text ! 1) * 100
                   + digit (text ! 2) * 10 + digit (text ! 3);
             m = digit (text ! 5) * 10 + digit (text ! 6);
             d = digit (text ! 8) * 10 + digit (text ! 9);
             hh = digit (text ! 11) * 10 + digit (text ! 12);
             mm = digit (text ! 14) * 10 + digit (text ! 15);
             ss = digit (text ! 17) * 10 + digit (text ! 18)
         in if 1 \<le> m \<and> m \<le> 12 \<and> 1 \<le> d \<and> d \<le> daysIn m y \<and> hh < 24 \<and> mm < 60 \<and> ss < 60
            then Inr ((((days_from_civil y m d * 24 + hh) * 60 + mm) * 60 + ss) * 1000000000)
            else Inl ''parsing time: out of range'')
      else Inl ''parsing time: cannot parse'')"

definition example_world :: "(string \<times> (string + Response)) list \<Rightarrow> world" where
  "example_world table =
     \<lparr>parseURL = (\<lambda>url. None), Do = backend table, Now = 1793491200000000000,
      parseTime = example_parseTime\<rparr>"

definition example_identity :: "(string \<times> (string + Response)) list" where
  "example_identity =
     [(''http://md/instance-id'', answer 200 ''i-1234''),
      (''http://md/instance-type'', answer 200 ''m5.large'')]"

definition example_collector :: "bool \<Rightarrow> terminationCollector" where
  "example_collector v2 = NewTerminationCollector ''http://md/'' ''http://md/token'' v2 Map.empty"

section \<open>Facts about the helpers\<close>

lemma fetched_eq:
  "fetched w url token =
     (case parseURL w url of
        Some err \<Rightarrow> Inl err
      | None \<Rightarrow> Do w \<lparr>Method = ''GET'', URL = url,
                       Header = (if token \<noteq> [] then [(''X-aws-ec2-metadata-token'', token)]
                                 else [])\<rparr>)"
  by (simp add: fetched_def getResponse_def http_NewRequest_def client_Do_def Header_Add_def
      split: option.splits)

lemma wire_of_eq:
  "wire_of w url token =
     (case parseURL w url of
        Some err \<Rightarrow> []
      | None \<Rightarrow> [\<lparr>Method = ''GET'', URL = url,
                   Header = (if token \<noteq> [] then [(''X-aws-ec2-metadata-token'', token)]
                             else [])\<rparr>])"
  by (simp add: wire_of_def getResponse_def http_NewRequest_def client_Do_def Header_Add_def
      split: option.splits)

lemma getResponse_eq:
  "getResponse w url token s = (fetched w url token, s\<lparr>Wire := Wire s @ wire_of w url token\<rparr>)"
  by (simp add: fetched_def wire_of_def getResponse_def http_NewRequest_def client_Do_def
      split: sum.splits option.splits)

lemma token_wire_eq:
  "Wire (snd (getIMDSv2Token w url \<lparr>Sent = [], Wire = []\<rparr>))
     = (case parseURL w url of Some e \<Rightarrow> [] | None \<Rightarrow> [token_request url])"
  by (simp add: getIMDSv2Token_def http_NewRequest_def client_Do_def Header_Add_def
      token_request_def split: option.splits sum.splits)





lemmas collector_simps =
  NewTerminationCollector_def NewDesc_def MustNewConstMetric_def send_def gauge_def

section \<open>The two lookups, case by case\<close>





lemma rebalance_error:
  assumes "c = NewTerminationCollector me te v2 nl"
    and "fetched w (me @ ''events/recommendations/rebalance'') token = Inl err"
  shows "Collect_rebalance c w token iid ity s =
           Inr (s\<lparr>Sent := Sent s @ [gauge (rebalanceScrapeSuccessful c) 0 [iid]],
                  Wire := Wire s @ wire_of w (me @ ''events/recommendations/rebalance'') token\<rparr>)"
  using assms by (simp add: Collect_rebalance_def getResponse_eq collector_simps)

lemma rebalance_404:
  assumes "c = NewTerminationCollector me te v2 nl"
    and "fetched w (me @ ''events/recommendations/rebalance'') token = Inr resp"
    and "StatusCode resp = 404"
  shows "Collect_rebalance c w token iid ity s =
           Inr (s\<lparr>Sent := Sent s @ [gauge (rebalanceScrapeSuccessful c) 1 [iid],
                                      gauge (rebalanceIndicator c) 0 [iid, ity]],
                  Wire := Wire s @ wire_of w (me @ ''events/recommendations/rebalance'') token\<rparr>)"
  using assms by (simp add: Collect_rebalance_def getResponse_eq collector_simps)

lemma rebalance_undecodable:
  assumes "c = NewTerminationCollector me te v2 nl"
    and "fetched w (me @ ''events/recommendations/rebalance'') token = Inr resp"
    and "StatusCode resp \<noteq> 404"
    and "Unmarshal_instanceEvent (parseTime w) (Body resp) = Inl e"
  shows "Collect_rebalance c w token iid ity s =
           Inr (s\<lparr>Sent := Sent s @ [gauge (rebalanceScrapeSuccessful c) 1 [iid],
                                      gauge (rebalanceIndicator c) 0 [iid, ity]],
                  Wire := Wire s @ wire_of w (me @ ''events/recommendations/rebalance'') token\<rparr>)"
  using assms by (simp add: Collect_rebalance_def getResponse_eq collector_simps)

lemma rebalance_decoded:
  assumes "c = NewTerminationCollector me te v2 nl"
    and "fetched w (me @ ''events/recommendations/rebalance'') token = Inr resp"
    and "StatusCode resp \<noteq> 404"
    and "Unmarshal_instanceEvent (parseTime w) (Body resp) = Inr ie"
  shows "Collect_rebalance c w token iid ity s =
           Inr (s\<lparr>Sent := Sent s @ [gauge (rebalanceScrapeSuccessful c) 1 [iid],
                                      gauge (rebalanceIndicator c) 1 [iid, ity]],
                  Wire := Wire s @ wire_of w (me @ ''events/recommendations/rebalance'') token\<rparr>)"
  using assms by (simp add: Collect_rebalance_def getResponse_eq collector_simps)



section \<open>The scrape as a whole\<close>

lemma Collect_token_sent: "Sent (snd (Collect_token c w)) = []"
  by (simp add: Collect_token_def getIMDSv2Token_def client_Do_def
      split: sum.splits option.splits)

lemma Collect_token_failed:
  assumes "fst (Collect_token c w) = Inl err"
  shows "Collect c w = Inr \<lparr>Sent = [], Wire = Wire (snd (Collect_token c w))\<rparr>"
proof -
  obtain s0 where s0: "Collect_token c w = (Inl err, s0)"
    using assms by (cases "Collect_token c w") simp
  have "Sent s0 = []"
    using Collect_token_sent [of c w] by (simp add: s0)
  then show ?thesis
    by (simp add: Collect_def s0)
qed

lemma Collect_identity_failed:
  assumes "fst (Collect_token c w) = Inr token"
    and "error_or_404 (fetched w (metadataEndpoint c @ ''instance-id'') token)
         \<or> error_or_404 (fetched w (metadataEndpoint c @ ''instance-type'') token)"
  shows "Collect c w =
           Inr \<lparr>Sent = [],
                Wire = Wire (snd (Collect_token c w))
                   @ wire_of w (metadataEndpoint c @ ''instance-id'') token
                   @ (if error_or_404 (fetched w (metadataEndpoint c @ ''instance-id'') token)
                      then []
                      else wire_of w (metadataEndpoint c @ ''instance-type'') token)\<rparr>"
proof -
  obtain s0 where s0: "Collect_token c w = (Inr token, s0)"
    using assms(1) by (cases "Collect_token c w") simp
  have sent0: "Sent s0 = []"
    using Collect_token_sent [of c w] by (simp add: s0)
  have upd: "s0\<lparr>Wire := ws\<rparr> = \<lparr>Sent = [], Wire = ws\<rparr>" for ws
    using sent0 by simp
  show ?thesis
    using assms(2)
    by (auto simp: Collect_def s0 getResponse_eq error_or_404_def upd Let_def
        split: sum.splits)
qed


























lemmas example_simps =
  example_collector_def example_world_def example_identity_def backend_def answer_def
  fetched_eq wire_of_eq Collect_token_def NewTerminationCollector_def error_or_404_def


section \<open>The examples' bodies, decoded\<close>















section \<open>The claims\<close>

text \<open>
  C1. When the token phase has yielded a token (or is switched off) and the instance-id
  lookup or the instance-type lookup ends in an error or a 404, \<^verbatim>\<open>Collect\<close> returns
  having sent no metric at all, and the failed lookup is the last request of the scrape.
\<close>

theorem C1_identity_failure_sends_nothing:
  assumes "c = NewTerminationCollector me te v2 nodeLabels"
    and "fst (Collect_token c w) = Inr token"
    and "error_or_404 (fetched w (me @ ''instance-id'') token)
         \<or> error_or_404 (fetched w (me @ ''instance-type'') token)"
  shows "Collect c w =
           Inr \<lparr>Sent = [],
                Wire = Wire (snd (Collect_token c w))
                   @ wire_of w (me @ ''instance-id'') token
                   @ (if error_or_404 (fetched w (me @ ''instance-id'') token) then []
                      else wire_of w (me @ ''instance-type'') token)\<rparr>"
proof -
  have "metadataEndpoint c = me"
    using assms(1) by (simp add: NewTerminationCollector_def)
  then show ?thesis
    using Collect_identity_failed [of c w token] assms(2,3) by simp
qed

text \<open>
  The instance id is answered, the instance type is a 404: nothing is sent, and the two
  identity lookups are all that went out.
\<close>

theorem C1_witness:
  "fst (Collect_token (example_collector False)
          (example_world [(''http://md/instance-id'', answer 200 ''i-1234''),
                          (''http://md/instance-type'', answer 404 ''Not Found'')])) = Inr []
   \<and> error_or_404 (fetched (example_world [(''http://md/instance-id'', answer 200 ''i-1234''),
                          (''http://md/instance-type'', answer 404 ''Not Found'')])
                      (''http://md/'' @ ''instance-type'') [])
   \<and> Collect (example_collector False)
        (example_world [(''http://md/instance-id'', answer 200 ''i-1234''),
                        (''http://md/instance-type'', answer 404 ''Not Found'')])
      = Inr \<lparr>Sent = [],
             Wire = [\<lparr>Method = ''GET'', URL = ''http://md/instance-id'', Header = []\<rparr>,
                     \<lparr>Method = ''GET'', URL = ''http://md/instance-type'', Header = []\<rparr>]\<rparr>"
  using C1_identity_failure_sends_nothing
    [of "example_collector False" "''http://md/''" "''http://md/token''" False Map.empty
        "example_world [(''http://md/instance-id'', answer 200 ''i-1234''),
                        (''http://md/instance-type'', answer 404 ''Not Found'')]" "[]"]
  by (simp add: example_simps)

text \<open>
  C2. With \<^verbatim>\<open>useIMDSv2\<close> set, when \<^verbatim>\<open>getIMDSv2Token\<close> returns an error,
  \<^verbatim>\<open>Collect\<close> returns having sent no metric, and nothing goes on the wire but the
  token request itself (not even that, when its URL is rejected).
\<close>

theorem C2_token_failure_sends_nothing:
  assumes "c = NewTerminationCollector me te True nodeLabels"
    and "fst (getIMDSv2Token w te \<lparr>Sent = [], Wire = []\<rparr>) = Inl err"
  shows "Collect c w =
           Inr \<lparr>Sent = [],
                Wire = (case parseURL w te of Some e \<Rightarrow> [] | None \<Rightarrow> [token_request te])\<rparr>"
proof -
  have tok: "Collect_token c w = getIMDSv2Token w te \<lparr>Sent = [], Wire = []\<rparr>"
    using assms(1) by (simp add: Collect_token_def NewTerminationCollector_def)
  show ?thesis
    using Collect_token_failed [of c w err] assms(2) by (simp add: tok token_wire_eq)
qed

text \<open>The token endpoint is not reachable: one request, the token's, and no metric.\<close>

theorem C2_witness:
  "fst (getIMDSv2Token (example_world [(''http://md/instance-id'', answer 200 ''i-1234'')])
          ''http://md/token'' \<lparr>Sent = [], Wire = []\<rparr>) = Inl ''dial tcp: connection refused''
   \<and> Collect (example_collector True)
        (example_world [(''http://md/instance-id'', answer 200 ''i-1234'')])
      = Inr \<lparr>Sent = [], Wire = [token_request ''http://md/token'']\<rparr>"
  using C2_token_failure_sends_nothing
    [of "example_collector True" "''http://md/''" "''http://md/token''" Map.empty
        "example_world [(''http://md/instance-id'', answer 200 ''i-1234'')]"
        "''dial tcp: connection refused''"]
  by (simp add: example_simps getIMDSv2Token_def http_NewRequest_def client_Do_def
      Header_Add_def token_request_def)




















end
